theory Spec2Isabelle
  imports Main "HOL-Library.Sublist"
begin

section \<open>Values, messages and errors\<close>

text \<open>
  The application in \<^verbatim>\<open>app.py\<close> wires language-model agents into a LangGraph graph.
  The language model, the agent run time and the operating system are outside of the
  program: they appear below as parameters or as explicit fields of a world record.
\<close>

text \<open>Python values as far as \<^verbatim>\<open>run_graph\<close> inspects them.\<close>

datatype pyval =
    PStr string
  | PInt int
  | PBool bool
  | PNone
  | PList "pyval list"
  | PDict "(string \<times> pyval) list"

text \<open>
  The content of a LangChain message is a string or a list of blocks
  (strings or dicts).
\<close>

datatype content = Text string | Blocks "pyval list"

datatype message =
    HumanMessage (content: content)
  | AIMessage (content: content)
  | ToolMessage (content: content)

text \<open>
  The exceptions that can leave the functions modelled here; \<open>ServiceError\<close> stands
  for a failure of an external service while a node runs.
\<close>

datatype error =
    RuntimeError string
  | OSError
  | PermissionError
  | UnicodeDecodeError
  | TypeError
  | GraphRecursionError
  | ServiceError string

text \<open>
  The graph state \<^verbatim>\<open>MessagesState\<close> is a dict; the only key the program reads is
  \<^verbatim>\<open>"messages"\<close>.
\<close>

type_synonym state = "string \<rightharpoonup> message list"

section \<open>Agents\<close>

datatype tool = TavilySearch (max_results: nat) | CalendarTool string

text \<open>
  What \<^verbatim>\<open>create_react_agent\<close> and \<^verbatim>\<open>create_supervisor(...).compile()\<close> return:
  the arguments they were built from. What such an object does when it runs is decided by
  the language model and the agent library; it is the parameter \<open>exec\<close> below.
\<close>

datatype runnable =
    ReactAgent (model: string) (tools: "tool list") (prompt: string) (name: string)
  | Supervisor (model: string) (agents: "runnable list") (prompt: string)
      (add_handoff_back_messages: bool) (output_mode: string)

text \<open>
  Python strings hold code points; a \<^typ>\<open>string\<close> holds bytes. The one character
  outside of ASCII in the prompts, the em dash U+2014, is written as its three UTF-8 bytes.
\<close>

definition em_dash :: string where
  "em_dash = [CHR 0xE2, CHR 0x80, CHR 0x94]"

definition init_chat_model :: "string \<Rightarrow> string" where
  "init_chat_model spec = spec"

definition create_react_agent :: "string \<Rightarrow> tool list \<Rightarrow> string \<Rightarrow> string \<Rightarrow> runnable" where
  "create_react_agent m ts p n =
     ReactAgent m ts p n"

definition calendar_prompt :: string where
  "calendar_prompt =
     ''You are a Calendar work agent.\<newline>\<newline>'' @
     ''TASK:\<newline>'' @
     ''- Use the provided tools to create, search, update, move, and delete events.\<newline>'' @
     ''- ALWAYS set timezone to 'Europe/Berlin'.\<newline>'' @
     ''- If date/time/calendar is missing, ask exactly one clarifying question via tool use if needed.\<newline>\<newline>'' @
     ''OUTPUT CONTRACT (very important):\<newline>'' @
     ''- After completing the operation(s), respond ONLY with a single fenced JSON block labeled RESULT_JSON.\<newline>'' @
     ''- No other text. JSON must match the schema in the docstring.''"

definition create_calendar_agent :: "tool list \<Rightarrow> runnable" where
  "create_calendar_agent ts =
     create_react_agent (init_chat_model ''openai:gpt-4o-mini'') ts calendar_prompt
       ''calendar_agent''"

definition research_prompt :: string where
  "research_prompt =
     ''You are a Research work agent.\<newline>\<newline>'' @
     ''TASK:\<newline>'' @
     ''- Perform only research-related tasks using Tavily.\<newline>\<newline>'' @
     ''OUTPUT CONTRACT (very important):\<newline>'' @
     ''- Respond ONLY with a single fenced JSON block labeled RESULT_JSON. No other text.\<newline>'' @
     ''- Normalize results to the schema in the docstring. If no hits, ok=false, data=[].''"

definition create_research_agent :: runnable where
  "create_research_agent =
     (let web_search = TavilySearch 5
      in create_react_agent (init_chat_model ''openai:gpt-4o-mini'') [web_search]
           research_prompt ''research_agent'')"

definition formatter_prompt :: string where
  "formatter_prompt =
     ''You are a Formatter agent.\<newline>\<newline>'' @
     ''TASK:\<newline>'' @
     ''- Read the conversation so far, find the most recent fenced JSON block labeled RESULT_JSON,\<newline>'' @
     ''  parse it, and produce a clean, user-friendly Markdown summary of the results.\<newline>'' @
     ''- Do NOT call any tools.\<newline>\<newline>'' @
     ''RENDERING RULES:\<newline>'' @
     ''- If RESULT_JSON.agent == 'calendar':\<newline>'' @
     ''   * op=='search': bulleted list of events (summary, start, end, location, attendees).\<newline>'' @
     ''   * op in ['create','update','move','delete']: concise confirmation with key fields.\<newline>'' @
     ''   * if ok==false: concise error or 'no results'.\<newline>'' @
     ''- If RESULT_JSON.agent == 'research':\<newline>'' @
     (''   * ok==true: up to 5 items as: [Title](url) '' @ em_dash @ '' snippet.\<newline>'') @
     ''   * ok==false: 'no high-quality sources found'.\<newline>'' @
     ''- Fallback: if data is an array of objects, infer up to 6 columns and render a simple table.\<newline>'' @
     ''- Keep it concise. Use Markdown only. No JSON or code blocks in the final output.''"

definition create_formatter_agent :: runnable where
  "create_formatter_agent =
     create_react_agent (init_chat_model ''openai:gpt-4o-mini'') [] formatter_prompt
       ''formatter_agent''"

definition supervisor_prompt :: string where
  "supervisor_prompt =
     ''You are a supervisor managing two WORK agents:\<newline>'' @
     ''- research_agent: research tasks via Tavily.\<newline>'' @
     ''- calendar_agent: calendar CRUD via Google Calendar tools.\<newline>\<newline>'' @
     ''POLICY:\<newline>'' @
     ''1) Pick exactly one WORK agent for the user's request.\<newline>'' @
     ''2) After the WORK agent finishes, do NOT write any additional message. End immediately.\<newline>'' @
     ''3) The WORK agent's reply MUST be a RESULT_JSON block. Do not format it yourself.''"

definition create_supervisor_runnable :: "runnable \<Rightarrow> runnable \<Rightarrow> runnable" where
  "create_supervisor_runnable research_agent calendar_agent =
     Supervisor (init_chat_model ''openai:gpt-4o-mini'') [research_agent, calendar_agent]
       supervisor_prompt True ''full_history''"

section \<open>The parent graph\<close>

text \<open>
  A \<^verbatim>\<open>StateGraph\<close> builder collects named nodes and directed edges;
  \<^verbatim>\<open>START\<close> and \<^verbatim>\<open>END\<close> are the two reserved node names of the library.
\<close>

definition START :: string where
  "START = ''__start__''"

definition END :: string where
  "END = ''__end__''"

record 'n state_graph =
  nodes :: "(string \<times> 'n) list"
  edges :: "(string \<times> string) list"

definition StateGraph :: "'n state_graph" where
  "StateGraph = \<lparr>nodes = [], edges = []\<rparr>"

definition add_node :: "string \<Rightarrow> 'n \<Rightarrow> 'n state_graph \<Rightarrow> 'n state_graph" where
  "add_node n action b = b\<lparr>nodes := nodes b @ [(n, action)]\<rparr>"

definition add_edge :: "string \<Rightarrow> string \<Rightarrow> 'n state_graph \<Rightarrow> 'n state_graph" where
  "add_edge s t b = b\<lparr>edges := edges b @ [(s, t)]\<rparr>"

text \<open>
  The checks of the library on a graph: node names are distinct and not reserved, every
  edge leaves \<^verbatim>\<open>START\<close> or a node and enters a node or \<^verbatim>\<open>END\<close>, and \<^verbatim>\<open>START\<close>
  has an edge.
\<close>

definition valid_graph :: "'n state_graph \<Rightarrow> bool" where
  "valid_graph g =
     (let ns = map fst (nodes g) in
        distinct ns \<and> START \<notin> set ns \<and> END \<notin> set ns \<and>
        list_all (\<lambda>e. fst e \<in> set (START # ns) \<and> snd e \<in> set (END # ns)) (edges g) \<and>
        START \<in> set (map fst (edges g)))"

definition build_parent_graph :: "'n \<Rightarrow> 'n \<Rightarrow> 'n state_graph" where
  "build_parent_graph supervisor_runnable formatter_agent =
     (let builder = StateGraph;
          builder = add_node ''supervisor'' supervisor_runnable builder;
          builder = add_node ''formatter_agent'' formatter_agent builder;
          builder = add_edge START ''supervisor'' builder;
          builder = add_edge ''supervisor'' ''formatter_agent'' builder;
          builder = add_edge ''formatter_agent'' END builder
      in builder)"

subsection \<open>Running a compiled graph\<close>

text \<open>
  \<^verbatim>\<open>invoke\<close> runs the graph in steps: \<^verbatim>\<open>START\<close> is the first step, then the
  nodes entered by the edges out of \<^verbatim>\<open>START\<close> run, then the nodes entered by the edges
  out of those, until only \<^verbatim>\<open>END\<close> (or nothing) is left. The library allows 25 steps,
  the step of \<^verbatim>\<open>START\<close> among them, and raises \<^verbatim>\<open>GraphRecursionError\<close> when nodes
  are left to run after that. What a node does to the state is the parameter \<open>exec\<close>;
  it may fail. The nodes of one step run one after the other here.
\<close>

definition successors :: "'n state_graph \<Rightarrow> string \<Rightarrow> string list" where
  "successors g n = map snd (filter (\<lambda>e. fst e = n) (edges g))"

definition next_nodes :: "'n state_graph \<Rightarrow> string list \<Rightarrow> string list" where
  "next_nodes g act = remdups (concat (map (successors g) act))"

fun run_nodes ::
  "('n \<Rightarrow> 'st \<Rightarrow> error + 'st) \<Rightarrow> 'n state_graph \<Rightarrow> string list \<Rightarrow> 'st \<Rightarrow> error + 'st" where
  "run_nodes exec g [] st = Inr st"
| "run_nodes exec g (n # ns) st =
     (case map_of (nodes g) n of
        None \<Rightarrow> run_nodes exec g ns st
      | Some action \<Rightarrow>
          (case exec action st of
             Inl e \<Rightarrow> Inl e
           | Inr st' \<Rightarrow> run_nodes exec g ns st'))"

definition finished :: "string list \<Rightarrow> bool" where
  "finished act = list_all (\<lambda>n. n = END) act"

fun supersteps ::
  "nat \<Rightarrow> ('n \<Rightarrow> 'st \<Rightarrow> error + 'st) \<Rightarrow> 'n state_graph \<Rightarrow> string list \<Rightarrow> 'st
     \<Rightarrow> error + (string list list \<times> 'st)" where
  "supersteps 0 exec g act st =
     (if finished act then Inr ([act], st) else Inl GraphRecursionError)"
| "supersteps (Suc k) exec g act st =
     (if finished act then Inr ([act], st)
      else (case run_nodes exec g act st of
              Inl e \<Rightarrow> Inl e
            | Inr st' \<Rightarrow>
                (case supersteps k exec g (next_nodes g act) st' of
                   Inl e \<Rightarrow> Inl e
                 | Inr (tr, s) \<Rightarrow> Inr (act # tr, s))))"

definition recursion_limit :: nat where
  "recursion_limit = 25"

text \<open>The run with the list of the steps it took, each the list of its active nodes.\<close>

definition invoke_trace ::
  "('n \<Rightarrow> 'st \<Rightarrow> error + 'st) \<Rightarrow> 'n state_graph \<Rightarrow> 'st \<Rightarrow> error + (string list list \<times> 'st)" where
  "invoke_trace exec g input = supersteps recursion_limit exec g [START] input"

definition invoke :: "('n \<Rightarrow> 'st \<Rightarrow> error + 'st) \<Rightarrow> 'n state_graph \<Rightarrow> 'st \<Rightarrow> error + 'st" where
  "invoke exec g input =
     (case invoke_trace exec g input of Inl e \<Rightarrow> Inl e | Inr (tr, s) \<Rightarrow> Inr s)"

section \<open>The entry point\<close>

fun dict_get :: "(string \<times> pyval) list \<Rightarrow> string \<Rightarrow> pyval \<Rightarrow> pyval" where
  "dict_get d k dflt = (case map_of d k of None \<Rightarrow> dflt | Some v \<Rightarrow> v)"

text \<open>
  The generator of \<^verbatim>\<open>run_graph\<close>:
  \<^verbatim>\<open>p.get("text", "") for p in content if isinstance(p, dict) and p.get("type") == "text"\<close>.
\<close>

fun text_parts :: "pyval list \<Rightarrow> pyval list" where
  "text_parts [] = []"
| "text_parts (PDict d # ps) =
     (if dict_get d ''type'' PNone = PStr ''text''
      then dict_get d ''text'' (PStr []) # text_parts ps
      else text_parts ps)"
| "text_parts (p # ps) = text_parts ps"

text \<open>\<^verbatim>\<open>"".join\<close> raises \<^verbatim>\<open>TypeError\<close> at an item that is not a string.\<close>

fun join :: "pyval list \<Rightarrow> error + string" where
  "join [] = Inr []"
| "join (PStr s # vs) = (case join vs of Inl e \<Rightarrow> Inl e | Inr r \<Rightarrow> Inr (s @ r))"
| "join (v # vs) = Inl TypeError"

text \<open>
  \<open>app\<close> is \<^verbatim>\<open>app.invoke\<close>. An exception of the graph run leaves \<^verbatim>\<open>run_graph\<close>
  as it is.
\<close>

definition run_graph :: "(state \<Rightarrow> error + state) \<Rightarrow> string \<Rightarrow> error + string" where
  "run_graph app user_text =
     (case app (Map.empty(''messages'' \<mapsto> [HumanMessage (Text user_text)])) of
        Inl e \<Rightarrow> Inl e
      | Inr result \<Rightarrow>
          (let msgs = (case result ''messages'' of None \<Rightarrow> [] | Some ms \<Rightarrow> ms) in
             if msgs = [] then Inr []
             else (case content (last msgs) of
                     Blocks ps \<Rightarrow> join (text_parts ps)
                   | Text s \<Rightarrow> Inr s)))"

section \<open>Start-up\<close>

text \<open>
  The part of the outside world that \<^verbatim>\<open>bootstrap_secrets\<close> reads and writes. The three
  library calls of the function can fail, so the world holds the outcome of each:
  \<^item> \<open>environ\<close>: the process environment;
  \<^item> \<open>dotenv_file\<close>: what \<^verbatim>\<open>load_dotenv()\<close> reads, the entries of the \<^verbatim>\<open>.env\<close> file
    (none when there is no file) or the exception of reading it (a file that cannot be
    opened or decoded);
  \<^item> \<open>secrets_exists\<close>: what \<^verbatim>\<open>Path("/app/secrets").exists()\<close> gives, a truth value or
    an exception (\<^verbatim>\<open>PermissionError\<close> below a directory that cannot be searched);
  \<^item> \<open>secrets_chdir\<close>: the exception of \<^verbatim>\<open>os.chdir("/app/secrets")\<close>, if it raises one
    (the path is a file, or a directory that cannot be entered);
  \<^item> \<open>cwd\<close>: the working directory.
\<close>

record world =
  environ :: "string \<rightharpoonup> string"
  dotenv_file :: "error + (string \<rightharpoonup> string)"
  secrets_exists :: "error + bool"
  secrets_chdir :: "error option"
  cwd :: string

text \<open>\<^verbatim>\<open>load_dotenv()\<close> adds the entries of the file and keeps a variable that is set.\<close>

definition load_dotenv :: "world \<Rightarrow> error + world" where
  "load_dotenv w =
     (case dotenv_file w of
        Inl e \<Rightarrow> Inl e
      | Inr entries \<Rightarrow> Inr (w\<lparr>environ := entries ++ environ w\<rparr>))"

definition path_exists :: "world \<Rightarrow> error + bool" where
  "path_exists w = secrets_exists w"

definition chdir :: "string \<Rightarrow> world \<Rightarrow> error + world" where
  "chdir p w = (case secrets_chdir w of Some e \<Rightarrow> Inl e | None \<Rightarrow> Inr (w\<lparr>cwd := p\<rparr>))"

definition getenv :: "world \<Rightarrow> string \<Rightarrow> string option" where
  "getenv w k = environ w k"

text \<open>Python's truth value of \<^verbatim>\<open>os.getenv(k)\<close>: false for \<^verbatim>\<open>None\<close> and for the empty string.\<close>

definition truthy :: "string option \<Rightarrow> bool" where
  "truthy v = (case v of None \<Rightarrow> False | Some s \<Rightarrow> s \<noteq> [])"

definition bootstrap_secrets :: "world \<Rightarrow> error + world" where
  "bootstrap_secrets w0 =
     (case load_dotenv w0 of
        Inl e \<Rightarrow> Inl e
      | Inr w1 \<Rightarrow>
          (case path_exists w1 of
             Inl e \<Rightarrow> Inl e
           | Inr ex \<Rightarrow>
               (case (if ex then chdir ''/app/secrets'' w1 else Inr w1) of
                  Inl e \<Rightarrow> Inl e
                | Inr w2 \<Rightarrow>
                    if \<not> truthy (getenv w2 ''OPENAI_API_KEY'')
                    then Inl (RuntimeError
                           ''Missing OPENAI_API_KEY (set it in .env or container env).'')
                    else if \<not> truthy (getenv w2 ''TAVILY_API_KEY'')
                    then Inl (RuntimeError
                           ''Missing TAVILY_API_KEY (set it in .env or container env).'')
                    else Inr w2)))"

section \<open>The application as \<^verbatim>\<open>main\<close> assembles it\<close>

text \<open>
  \<^verbatim>\<open>main\<close> builds the agents, the supervisor and the parent graph. The calendar tools
  come from Google's toolkit and are a parameter.
\<close>

definition main_app :: "tool list \<Rightarrow> runnable state_graph" where
  "main_app calendar_tools =
     (let calendar_agent = create_calendar_agent calendar_tools;
          research_agent = create_research_agent;
          formatter_agent = create_formatter_agent;
          supervisor_node = create_supervisor_runnable research_agent calendar_agent
      in build_parent_graph supervisor_node formatter_agent)"

text \<open>
  One run of \<^verbatim>\<open>main\<close> with a user input, in the order of the source:
  \<^verbatim>\<open>bootstrap_secrets()\<close> first, then \<^verbatim>\<open>build_calendar_tools()\<close> (Google's toolkit, which
  gives the tools or raises), then the agents and the graph, then
  \<^verbatim>\<open>run_graph(app, user_text)\<close>. The calls of the user interface and the drawing of
  the diagrams are left out.
\<close>

definition main_turn ::
  "world \<Rightarrow> error + tool list \<Rightarrow> (runnable \<Rightarrow> state \<Rightarrow> error + state) \<Rightarrow> string
     \<Rightarrow> error + string" where
  "main_turn w build_calendar_tools exec user_text =
     (case bootstrap_secrets w of
        Inl e \<Rightarrow> Inl e
      | Inr w' \<Rightarrow>
          (case build_calendar_tools of
             Inl e \<Rightarrow> Inl e
           | Inr calendar_tools \<Rightarrow>
               run_graph (invoke exec (main_app calendar_tools)) user_text))"

section \<open>The words of the specification\<close>

text \<open>A Markdown code fence, and the token that labels the block of a work agent.\<close>

definition has_code_fence :: "string \<Rightarrow> bool" where
  "has_code_fence s = sublist ''```'' s"

definition has_result_json_token :: "string \<Rightarrow> bool" where
  "has_result_json_token s = sublist ''RESULT_JSON'' s"

text \<open>A block that is a dict with \<^verbatim>\<open>type == "text"\<close>, and its \<^verbatim>\<open>"text"\<close> field.\<close>

definition is_text_block :: "pyval \<Rightarrow> bool" where
  "is_text_block p = (case p of PDict d \<Rightarrow> map_of d ''type'' = Some (PStr ''text'') | _ \<Rightarrow> False)"

definition text_field :: "pyval \<Rightarrow> pyval" where
  "text_field p =
     (case p of
        PDict d \<Rightarrow> (case map_of d ''text'' of None \<Rightarrow> PStr [] | Some v \<Rightarrow> v)
      | _ \<Rightarrow> PNone)"

definition is_str :: "pyval \<Rightarrow> bool" where
  "is_str v = (case v of PStr s \<Rightarrow> True | _ \<Rightarrow> False)"

definition str_of :: "pyval \<Rightarrow> string" where
  "str_of v = (case v of PStr s \<Rightarrow> s | _ \<Rightarrow> [])"

definition text_fields_are_strings :: "pyval list \<Rightarrow> bool" where
  "text_fields_are_strings ps = list_all (\<lambda>p. is_str (text_field p)) (filter is_text_block ps)"

definition concat_text_blocks :: "pyval list \<Rightarrow> string" where
  "concat_text_blocks ps = concat (map (\<lambda>p. str_of (text_field p)) (filter is_text_block ps))"

text \<open>
  The text of a message: the string itself, or for a list of blocks the concatenation of
  the text fields of its text blocks.
\<close>

definition reply_text :: "content \<Rightarrow> string" where
  "reply_text c = (case c of Text s \<Rightarrow> s | Blocks ps \<Rightarrow> concat_text_blocks ps)"

text \<open>A variable that \<^verbatim>\<open>os.getenv\<close> does not find, or finds empty.\<close>

definition unset_or_empty :: "string option \<Rightarrow> bool" where
  "unset_or_empty v = (v = None \<or> v = Some [])"

section \<open>Facts about the parent graph\<close>

lemma nodes_parent:
  "nodes (build_parent_graph sr fa) = [(''supervisor'', sr), (''formatter_agent'', fa)]"
  by (simp add: build_parent_graph_def StateGraph_def add_node_def add_edge_def)

lemma edges_parent:
  "edges (build_parent_graph sr fa) =
     [(START, ''supervisor''), (''supervisor'', ''formatter_agent''), (''formatter_agent'', END)]"
  by (simp add: build_parent_graph_def StateGraph_def add_node_def add_edge_def)

lemma successors_parent:
  "successors (build_parent_graph sr fa) n =
     (if n = START then [''supervisor'']
      else if n = ''supervisor'' then [''formatter_agent'']
      else if n = ''formatter_agent'' then [END] else [])"
  by (simp add: successors_def edges_parent START_def END_def)

lemma valid_parent: "valid_graph (build_parent_graph sr fa)"
  by (simp add: valid_graph_def nodes_parent edges_parent START_def END_def)

lemma invoke_trace_parent:
  "invoke_trace exec (build_parent_graph sr fa) st =
     (case exec sr st of
        Inl e \<Rightarrow> Inl e
      | Inr s1 \<Rightarrow>
          (case exec fa s1 of
             Inl e \<Rightarrow> Inl e
           | Inr s2 \<Rightarrow> Inr ([[START], [''supervisor''], [''formatter_agent''], [END]], s2)))"
  by (simp add: invoke_trace_def recursion_limit_def eval_nat_numeral successors_parent
      nodes_parent next_nodes_def finished_def START_def END_def split: sum.splits)

lemma invoke_parent:
  "invoke exec (build_parent_graph sr fa) st =
     (case exec sr st of Inl e \<Rightarrow> Inl e | Inr s1 \<Rightarrow> exec fa s1)"
  by (simp add: invoke_def invoke_trace_parent split: sum.splits)

lemma rank_acyclic:
  fixes rank :: "'a \<Rightarrow> nat"
  assumes "\<And>a b. (a, b) \<in> r \<Longrightarrow> rank a < rank b"
  shows "acyclic r"
proof -
  have "rank a < rank b" if "(a, b) \<in> r\<^sup>+" for a b
    using that by (induction rule: trancl.induct) (auto dest: assms)
  then show ?thesis
    by (fastforce simp: acyclic_def)
qed

lemma acyclic_parent: "acyclic (set (edges (build_parent_graph sr fa)))"
proof (rule rank_acyclic)
  fix a b
  let ?rank = "\<lambda>n. if n = START then 0 else if n = ''supervisor'' then 1
                    else if n = ''formatter_agent'' then 2 else (3::nat)"
  assume "(a, b) \<in> set (edges (build_parent_graph sr fa))"
  then show "?rank a < ?rank b"
    by (auto simp: edges_parent START_def END_def)
qed

text \<open>
  Claim C1. The parent graph built by \<^verbatim>\<open>build_parent_graph\<close> is a fixed line: its
  edges are exactly \<^verbatim>\<open>START\<close> to supervisor, supervisor to formatter_agent and
  formatter_agent to \<^verbatim>\<open>END\<close>; no node has more than one outgoing edge, no path of
  edges leads back to a node, and every run enters \<^verbatim>\<open>START\<close>, the supervisor, the
  formatter and \<^verbatim>\<open>END\<close> in this order (a run that a failing node does not end).
\<close>

theorem parent_graph_linear:
  "edges (build_parent_graph sr fa) =
     [(START, ''supervisor''), (''supervisor'', ''formatter_agent''), (''formatter_agent'', END)]
   \<and> map fst (nodes (build_parent_graph sr fa)) = [''supervisor'', ''formatter_agent'']
   \<and> valid_graph (build_parent_graph sr fa)
   \<and> (\<forall>n. length (successors (build_parent_graph sr fa) n) \<le> 1)
   \<and> acyclic (set (edges (build_parent_graph sr fa)))
   \<and> invoke_trace exec (build_parent_graph sr fa) st =
       (case exec sr st of
          Inl e \<Rightarrow> Inl e
        | Inr s1 \<Rightarrow>
            (case exec fa s1 of
               Inl e \<Rightarrow> Inl e
             | Inr s2 \<Rightarrow> Inr ([[START], [''supervisor''], [''formatter_agent''], [END]], s2)))"
  using edges_parent [of sr fa] nodes_parent [of sr fa] valid_parent [of sr fa]
    acyclic_parent [of sr fa] invoke_trace_parent [of exec sr fa st]
  by (simp add: successors_parent)

section \<open>Facts about the entry point\<close>

lemma text_parts_filter:
  "text_parts ps = map text_field (filter is_text_block ps)"
  by (induction ps rule: text_parts.induct)
    (auto simp: is_text_block_def text_field_def split: option.splits)

lemma join_strings:
  "list_all is_str vs \<Longrightarrow> join vs = Inr (concat (map str_of vs))"
  by (induction vs rule: join.induct) (auto simp: is_str_def str_of_def)

lemma join_not_strings:
  "\<not> list_all is_str vs \<Longrightarrow> join vs = Inl TypeError"
  by (induction vs rule: join.induct) (auto simp: is_str_def)

lemma join_text_parts:
  "join (text_parts ps) =
     (if text_fields_are_strings ps then Inr (concat_text_blocks ps) else Inl TypeError)"
proof (cases "text_fields_are_strings ps")
  case True
  then have "list_all is_str (map text_field (filter is_text_block ps))"
    by (simp add: text_fields_are_strings_def list_all_iff)
  with True show ?thesis
    by (simp add: join_strings text_parts_filter concat_text_blocks_def comp_def)
next
  case False
  then have "\<not> list_all is_str (map text_field (filter is_text_block ps))"
    by (simp add: text_fields_are_strings_def list_all_iff)
  with False show ?thesis
    by (simp add: join_not_strings text_parts_filter)
qed

lemma run_graph_no_messages:
  assumes "app (Map.empty(''messages'' \<mapsto> [HumanMessage (Text t)])) = Inr r"
    and "r ''messages'' = None \<or> r ''messages'' = Some []"
  shows "run_graph app t = Inr []"
  using assms by (auto simp: run_graph_def)

lemma run_graph_last_message:
  assumes "app (Map.empty(''messages'' \<mapsto> [HumanMessage (Text t)])) = Inr r"
    and "r ''messages'' = Some ms" and "ms \<noteq> []"
  shows "run_graph app t =
     (case content (last ms) of
        Text c \<Rightarrow> Inr c
      | Blocks ps \<Rightarrow>
          if text_fields_are_strings ps then Inr (concat_text_blocks ps) else Inl TypeError)"
  using assms by (simp add: run_graph_def join_text_parts split: content.splits)

lemma run_graph_reply_text:
  assumes "app (Map.empty(''messages'' \<mapsto> [HumanMessage (Text t)])) = Inr r"
    and "r ''messages'' = Some ms" and "ms \<noteq> []"
    and "run_graph app t = Inr out"
  shows "out = reply_text (content (last ms))"
  using assms by (auto simp: run_graph_def join_text_parts reply_text_def
      split: content.splits if_splits)




text \<open>
  Claim C10, as stated, fails in the list case: a block that is a dict with
  \<^verbatim>\<open>type == "text"\<close> and a \<^verbatim>\<open>"text"\<close> field that is not a string (here the number 5)
  makes \<^verbatim>\<open>"".join\<close> raise \<^verbatim>\<open>TypeError\<close>; no concatenation is returned.
\<close>

theorem run_graph_non_string_text_raises:
  "is_text_block (PDict [(''type'', PStr ''text''), (''text'', PInt 5)])
   \<and> run_graph (\<lambda>st. Inr (st(''messages'' \<mapsto>
         [AIMessage (Blocks [PDict [(''type'', PStr ''text''), (''text'', PInt 5)]])]))) ''hi''
       = Inl TypeError"
  by (simp add: run_graph_def is_text_block_def)

text \<open>
  Claim C10, amended. When the result of the graph has no messages (no \<^verbatim>\<open>"messages"\<close>
  key, or an empty list), \<^verbatim>\<open>run_graph\<close> returns the empty string. When the content of
  the last message is a list of blocks, it looks at exactly the blocks that are dicts with
  \<^verbatim>\<open>type == "text"\<close> and drops every other block: if the \<^verbatim>\<open>"text"\<close> field of each of
  them is a string (an absent field counts as the empty string), it returns the
  concatenation of these fields, and otherwise it raises \<^verbatim>\<open>TypeError\<close>.
\<close>

theorem run_graph_edge_cases:
  assumes "app (Map.empty(''messages'' \<mapsto> [HumanMessage (Text t)])) = Inr r"
  shows "(r ''messages'' = None \<or> r ''messages'' = Some [] \<longrightarrow> run_graph app t = Inr [])
       \<and> (r ''messages'' = Some ms \<and> ms \<noteq> [] \<and> content (last ms) = Blocks ps
          \<longrightarrow> run_graph app t =
                (if text_fields_are_strings ps then Inr (concat_text_blocks ps)
                 else Inl TypeError))"
proof (intro conjI impI)
  assume "r ''messages'' = None \<or> r ''messages'' = Some []"
  with assms show "run_graph app t = Inr []"
    by (rule run_graph_no_messages)
next
  assume h: "r ''messages'' = Some ms \<and> ms \<noteq> [] \<and> content (last ms) = Blocks ps"
  then have "run_graph app t =
     (case content (last ms) of
        Text c \<Rightarrow> Inr c
      | Blocks ps \<Rightarrow>
          if text_fields_are_strings ps then Inr (concat_text_blocks ps) else Inl TypeError)"
    using assms by (intro run_graph_last_message [where r = r]) simp_all
  with h show "run_graph app t =
     (if text_fields_are_strings ps then Inr (concat_text_blocks ps) else Inl TypeError)"
    by simp
qed

theorem run_graph_edge_cases_witness:
  "run_graph (\<lambda>st. Inr Map.empty) ''hi'' = Inr []
   \<and> run_graph (\<lambda>st. Inr (Map.empty(''messages'' \<mapsto> []))) ''hi'' = Inr []
   \<and> run_graph (\<lambda>st. Inr (st(''messages'' \<mapsto>
         [AIMessage (Blocks
            [PDict [(''type'', PStr ''text''), (''text'', PStr ''Lunch '')],
             PStr ''skipped'',
             PDict [(''type'', PStr ''tool_use''), (''text'', PStr ''hidden'')],
             PDict [(''type'', PStr ''text'')],
             PDict [(''text'', PStr ''at 12''), (''type'', PStr ''text'')]])]))) ''hi''
       = Inr ''Lunch at 12''
   \<and> run_graph (\<lambda>st. Inr (st(''messages'' \<mapsto>
         [AIMessage (Blocks
            [PDict [(''type'', PStr ''text''), (''text'', PStr ''Lunch '')],
             PDict [(''type'', PStr ''text''), (''text'', PNone)]])]))) ''hi''
       = Inl TypeError"
proof -
  let ?ps = "[PDict [(''type'', PStr ''text''), (''text'', PStr ''Lunch '')],
             PStr ''skipped'',
             PDict [(''type'', PStr ''tool_use''), (''text'', PStr ''hidden'')],
             PDict [(''type'', PStr ''text'')],
             PDict [(''text'', PStr ''at 12''), (''type'', PStr ''text'')]]"
  let ?qs = "[PDict [(''type'', PStr ''text''), (''text'', PStr ''Lunch '')],
             PDict [(''type'', PStr ''text''), (''text'', PNone)]]"
  have wf: "text_fields_are_strings ?ps"
    by (simp add: text_fields_are_strings_def is_text_block_def text_field_def is_str_def)
  have val: "concat_text_blocks ?ps = ''Lunch at 12''"
    by (simp add: concat_text_blocks_def is_text_block_def text_field_def str_of_def)
  have nwf: "\<not> text_fields_are_strings ?qs"
    by (simp add: text_fields_are_strings_def is_text_block_def text_field_def is_str_def)
  have a: "run_graph (\<lambda>st. Inr Map.empty) ''hi'' = Inr []"
    using run_graph_edge_cases [of "\<lambda>st. Inr Map.empty" "''hi''" Map.empty] by simp
  have b: "run_graph (\<lambda>st. Inr (Map.empty(''messages'' \<mapsto> []))) ''hi'' = Inr []"
    using run_graph_edge_cases [of "\<lambda>st. Inr (Map.empty(''messages'' \<mapsto> []))" "''hi''"
        "Map.empty(''messages'' \<mapsto> [])"] by simp
  have c: "run_graph (\<lambda>st. Inr (st(''messages'' \<mapsto> [AIMessage (Blocks ?ps)]))) ''hi''
      = Inr (concat_text_blocks ?ps)"
    using run_graph_edge_cases [of "\<lambda>st. Inr (st(''messages'' \<mapsto> [AIMessage (Blocks ?ps)]))" "''hi''"
        _ "[AIMessage (Blocks ?ps)]" ?ps] wf
    by simp
  have d: "run_graph (\<lambda>st. Inr (st(''messages'' \<mapsto> [AIMessage (Blocks ?qs)]))) ''hi''
      = Inl TypeError"
    using run_graph_edge_cases [of "\<lambda>st. Inr (st(''messages'' \<mapsto> [AIMessage (Blocks ?qs)]))" "''hi''"
        _ "[AIMessage (Blocks ?qs)]" ?qs] nwf
    by simp
  from a b c d val show ?thesis
    by simp
qed

section \<open>Facts about the agents\<close>

lemma formatter_agent_fields:
  "create_formatter_agent =
     ReactAgent ''openai:gpt-4o-mini'' [] formatter_prompt ''formatter_agent''"
  by (simp add: create_formatter_agent_def create_react_agent_def init_chat_model_def)

lemma research_agent_fields:
  "create_research_agent =
     ReactAgent ''openai:gpt-4o-mini'' [TavilySearch 5] research_prompt ''research_agent''"
  by (simp add: create_research_agent_def create_react_agent_def init_chat_model_def)

lemma prompt_limits_items:
  "sublist
     (''- If RESULT_JSON.agent == 'research':\<newline>'' @
      ''   * ok==true: up to 5 items as: [Title](url) '' @ em_dash @ '' snippet.'')
     formatter_prompt"
  by (simp add: formatter_prompt_def em_dash_def sublist_code)

lemma prompt_forbids_tools: "sublist ''Do NOT call any tools.'' formatter_prompt"
  by (simp add: formatter_prompt_def em_dash_def sublist_code)

lemma prompt_forbids_code_blocks:
  "sublist ''Use Markdown only. No JSON or code blocks in the final output.'' formatter_prompt"
  by (simp add: formatter_prompt_def em_dash_def sublist_code)

text \<open>
  Claim C7. The research agent has one tool, the Tavily web search, built with
  \<^verbatim>\<open>max_results=5\<close>: a search asks for at most 5 results. This is the limit of the
  rendering rule in the formatter's prompt, up to 5 items of the form
  \<^verbatim>\<open>[Title](url)\<close>, em dash, snippet.
\<close>

theorem research_search_max_results:
  "tools create_research_agent = [TavilySearch 5]
   \<and> map max_results (tools create_research_agent) = [5]
   \<and> sublist
        (''- If RESULT_JSON.agent == 'research':\<newline>'' @
         ''   * ok==true: up to 5 items as: [Title](url) '' @ em_dash @ '' snippet.'')
        (prompt create_formatter_agent)"
  using prompt_limits_items by (simp add: research_agent_fields formatter_agent_fields)

text \<open>
  Claim C8. The formatter agent is built with an empty tool list, so the formatting stage
  has no tool that it could call; it is the node \<^verbatim>\<open>formatter_agent\<close> of the
  application, whose only edge leads to \<^verbatim>\<open>END\<close> (no further routing), and its prompt
  tells the model not to call tools.
\<close>

theorem formatter_has_no_tools:
  "tools create_formatter_agent = []
   \<and> map_of (nodes (main_app calendar_tools)) ''formatter_agent'' = Some create_formatter_agent
   \<and> successors (main_app calendar_tools) ''formatter_agent'' = [END]
   \<and> sublist ''Do NOT call any tools.'' (prompt create_formatter_agent)"
  using prompt_forbids_tools
  by (simp add: main_app_def nodes_parent successors_parent formatter_agent_fields START_def)

text \<open>
  What \<^verbatim>\<open>create_supervisor_runnable\<close> passes to the library: the two work agents, and
  the two options on what the supervisor keeps of an agent's run.
\<close>

lemma supervisor_options:
  "output_mode (create_supervisor_runnable ra ca) = ''full_history''
   \<and> add_handoff_back_messages (create_supervisor_runnable ra ca) = True
   \<and> agents (create_supervisor_runnable ra ca) = [ra, ca]"
  by (simp add: create_supervisor_runnable_def)

text \<open>
  Claim C6, as stated, fails: nothing in the program filters the reply of the formatter's
  model. When the reply is a fenced block labelled \<^verbatim>\<open>RESULT_JSON\<close>, that is the text
  \<^verbatim>\<open>run_graph\<close> returns.
\<close>

theorem fenced_reply_is_returned:
  "run_graph
     (invoke (\<lambda>r st. Inr (st(''messages'' \<mapsto>
                [AIMessage (Text ''```json RESULT_JSON\<newline>{}\<newline>```'')])))
        (main_app []))
     ''hi'' = Inr ''```json RESULT_JSON\<newline>{}\<newline>```''
   \<and> has_code_fence ''```json RESULT_JSON\<newline>{}\<newline>```''
   \<and> has_result_json_token ''```json RESULT_JSON\<newline>{}\<newline>```''"
  by (simp add: run_graph_def main_app_def invoke_parent has_code_fence_def
      has_result_json_token_def sublist_code)

text \<open>
  Claim C6, amended. The formatter's prompt tells the model to use Markdown only, with no
  JSON or code blocks in the final output, and the program filters nothing: for every
  reply of the formatter the returned text is the text of its last message, a string
  content unchanged and of a list content the concatenation, in order, of the text fields
  of its text blocks (\<^verbatim>\<open>TypeError\<close> when such a field is not a string). So the returned
  text has a code fence or the token \<^verbatim>\<open>RESULT_JSON\<close> exactly when that text has one; in
  a list content this can be a fence that no single block holds.
\<close>

theorem formatter_reply_unfiltered:
  assumes "exec sr (Map.empty(''messages'' \<mapsto> [HumanMessage (Text t)])) = Inr s1"
    and "exec create_formatter_agent s1 = Inr s2"
    and "s2 ''messages'' = Some ms" and "ms \<noteq> []"
  shows "sublist ''Use Markdown only. No JSON or code blocks in the final output.''
           (prompt create_formatter_agent)
         \<and> run_graph (invoke exec (build_parent_graph sr create_formatter_agent)) t =
             (case content (last ms) of
                Text c \<Rightarrow> Inr c
              | Blocks ps \<Rightarrow>
                  if text_fields_are_strings ps then Inr (concat_text_blocks ps)
                  else Inl TypeError)
         \<and> (\<forall>out. run_graph (invoke exec (build_parent_graph sr create_formatter_agent)) t = Inr out
               \<longrightarrow> out = reply_text (content (last ms))
                 \<and> has_code_fence out = has_code_fence (reply_text (content (last ms)))
                 \<and> has_result_json_token out
                     = has_result_json_token (reply_text (content (last ms))))"
proof -
  let ?app = "invoke exec (build_parent_graph sr create_formatter_agent)"
  have inv: "?app (Map.empty(''messages'' \<mapsto> [HumanMessage (Text t)])) = Inr s2"
    using assms(1,2) by (simp add: invoke_parent)
  have res: "run_graph ?app t =
     (case content (last ms) of
        Text c \<Rightarrow> Inr c
      | Blocks ps \<Rightarrow>
          if text_fields_are_strings ps then Inr (concat_text_blocks ps) else Inl TypeError)"
    using inv assms(3,4) by (rule run_graph_last_message)
  have same: "\<And>out. run_graph ?app t = Inr out \<Longrightarrow> out = reply_text (content (last ms))"
    using inv assms(3,4) by (rule run_graph_reply_text)
  from res same prompt_forbids_code_blocks show ?thesis
    by (simp add: formatter_agent_fields)
qed

theorem formatter_reply_unfiltered_witness:
  "run_graph
     (invoke (\<lambda>r st. Inr (st(''messages'' \<mapsto> [AIMessage (Text ''- [A](http://a)'')])))
        (build_parent_graph (create_supervisor_runnable create_research_agent (create_calendar_agent []))
           create_formatter_agent))
     ''hi'' = Inr ''- [A](http://a)''
   \<and> \<not> has_code_fence ''- [A](http://a)''
   \<and> run_graph
     (invoke (\<lambda>r st. Inr (st(''messages'' \<mapsto>
          [AIMessage (Blocks [PDict [(''type'', PStr ''text''), (''text'', PStr ''``'')],
                              PDict [(''type'', PStr ''text''), (''text'', PStr ''`'')]])])))
        (build_parent_graph (create_supervisor_runnable create_research_agent (create_calendar_agent []))
           create_formatter_agent))
     ''hi'' = Inr ''```''
   \<and> \<not> has_code_fence ''``'' \<and> \<not> has_code_fence ''`'' \<and> has_code_fence ''```''"
proof -
  let ?e1 = "\<lambda>(r::runnable) (st :: state).
     (Inr (st(''messages'' \<mapsto> [AIMessage (Text ''- [A](http://a)'')])) :: error + state)"
  let ?ps = "[PDict [(''type'', PStr ''text''), (''text'', PStr ''``'')],
              PDict [(''type'', PStr ''text''), (''text'', PStr ''`'')]]"
  let ?e2 = "\<lambda>(r::runnable) (st :: state).
     (Inr (st(''messages'' \<mapsto> [AIMessage (Blocks ?ps)])) :: error + state)"
  let ?sr = "create_supervisor_runnable create_research_agent (create_calendar_agent [])"
  have wf: "text_fields_are_strings ?ps"
    by (simp add: text_fields_are_strings_def is_text_block_def text_field_def is_str_def)
  have val: "concat_text_blocks ?ps = ''```''"
    by (simp add: concat_text_blocks_def is_text_block_def text_field_def str_of_def)
  have fences: "\<not> has_code_fence ''- [A](http://a)'' \<and> \<not> has_code_fence ''``''
      \<and> \<not> has_code_fence ''`'' \<and> has_code_fence ''```''"
    by (simp add: has_code_fence_def sublist_code)
  have a: "run_graph (invoke ?e1 (build_parent_graph ?sr create_formatter_agent)) ''hi''
      = Inr ''- [A](http://a)''"
    using formatter_reply_unfiltered [of ?e1 ?sr "''hi''" _ _ "[AIMessage (Text ''- [A](http://a)'')]"]
    by simp
  have b: "run_graph (invoke ?e2 (build_parent_graph ?sr create_formatter_agent)) ''hi''
      = Inr (concat_text_blocks ?ps)"
    using formatter_reply_unfiltered [of ?e2 ?sr "''hi''" _ _ "[AIMessage (Blocks ?ps)]"] wf
    by simp
  from a b fences show ?thesis
    by (simp only: val) simp
qed

section \<open>Facts about the start-up\<close>

lemma truthy_unset_or_empty: "truthy v = (\<not> unset_or_empty v)"
  by (cases v) (simp_all add: truthy_def unset_or_empty_def)

lemma bootstrap_secrets_cases:
  "bootstrap_secrets w =
     (case dotenv_file w of
        Inl e \<Rightarrow> Inl e
      | Inr entries \<Rightarrow>
          (case secrets_exists w of
             Inl e \<Rightarrow> Inl e
           | Inr ex \<Rightarrow>
               (case (if ex then secrets_chdir w else None) of
                  Some e \<Rightarrow> Inl e
                | None \<Rightarrow>
                    if unset_or_empty ((entries ++ environ w) ''OPENAI_API_KEY'')
                    then Inl (RuntimeError
                           ''Missing OPENAI_API_KEY (set it in .env or container env).'')
                    else if unset_or_empty ((entries ++ environ w) ''TAVILY_API_KEY'')
                    then Inl (RuntimeError
                           ''Missing TAVILY_API_KEY (set it in .env or container env).'')
                    else Inr (w\<lparr>environ := entries ++ environ w,
                                 cwd := (if ex then ''/app/secrets'' else cwd w)\<rparr>))))"
proof (cases "dotenv_file w")
  case (Inl e)
  then show ?thesis
    by (simp add: bootstrap_secrets_def load_dotenv_def)
next
  case (Inr entries)
  note loaded = this
  show ?thesis
  proof (cases "secrets_exists w")
    case (Inl e)
    with loaded show ?thesis
      by (simp add: bootstrap_secrets_def load_dotenv_def path_exists_def)
  next
    case (Inr ex)
    with loaded show ?thesis
      by (cases ex; cases "secrets_chdir w")
        (simp_all add: bootstrap_secrets_def load_dotenv_def path_exists_def chdir_def
          getenv_def truthy_unset_or_empty)
  qed
qed

lemma main_turn_bootstrap_error:
  "bootstrap_secrets w = Inl e \<Longrightarrow> main_turn w bct exec t = Inl e"
  by (simp add: main_turn_def)

text \<open>
  Claim C4, as stated, fails in its second half: with both variables present in the
  environment, \<^verbatim>\<open>bootstrap_secrets\<close> still raises when one of them is the empty string,
  since \<^verbatim>\<open>not os.getenv(k)\<close> holds for the empty string as it does for \<^verbatim>\<open>None\<close>.
\<close>

theorem bootstrap_secrets_empty_key_raises:
  "environ \<lparr>environ = [''OPENAI_API_KEY'' \<mapsto> [], ''TAVILY_API_KEY'' \<mapsto> ''tvly-1''],
            dotenv_file = Inr Map.empty, secrets_exists = Inr False, secrets_chdir = None,
            cwd = ''/app''\<rparr> ''OPENAI_API_KEY'' \<noteq> None
   \<and> environ \<lparr>environ = [''OPENAI_API_KEY'' \<mapsto> [], ''TAVILY_API_KEY'' \<mapsto> ''tvly-1''],
            dotenv_file = Inr Map.empty, secrets_exists = Inr False, secrets_chdir = None,
            cwd = ''/app''\<rparr> ''TAVILY_API_KEY'' \<noteq> None
   \<and> bootstrap_secrets
        \<lparr>environ = [''OPENAI_API_KEY'' \<mapsto> [], ''TAVILY_API_KEY'' \<mapsto> ''tvly-1''],
         dotenv_file = Inr Map.empty, secrets_exists = Inr False, secrets_chdir = None,
         cwd = ''/app''\<rparr>
       = Inl (RuntimeError ''Missing OPENAI_API_KEY (set it in .env or container env).'')"
  by (simp add: bootstrap_secrets_def load_dotenv_def path_exists_def getenv_def truthy_def)

text \<open>
  Claim C4, amended. Missing configuration is fatal before any turn runs: when, after
  \<^verbatim>\<open>load_dotenv\<close> has added the entries of the \<^verbatim>\<open>.env\<close> file, \<^verbatim>\<open>OPENAI_API_KEY\<close> or
  \<^verbatim>\<open>TAVILY_API_KEY\<close> is unset or empty, \<^verbatim>\<open>bootstrap_secrets\<close> raises, and whenever it
  raises, \<^verbatim>\<open>main\<close> ends with that error and runs no turn. When its three library calls
  (\<^verbatim>\<open>load_dotenv\<close>, \<^verbatim>\<open>Path.exists\<close>, \<^verbatim>\<open>os.chdir\<close>) succeed, it raises exactly in that
  case, and the error is the \<^verbatim>\<open>RuntimeError\<close> that names the first such key. It raises
  for no other reason of its own: every other error is the one that one of the three
  library calls raised.
\<close>

theorem bootstrap_secrets_raises_iff:
  "(\<forall>entries. dotenv_file w = Inr entries
       \<and> (unset_or_empty ((entries ++ environ w) ''OPENAI_API_KEY'')
          \<or> unset_or_empty ((entries ++ environ w) ''TAVILY_API_KEY''))
       \<longrightarrow> isl (bootstrap_secrets w))
   \<and> (\<forall>e. bootstrap_secrets w = Inl e \<longrightarrow> (\<forall>bct exec t. main_turn w bct exec t = Inl e))
   \<and> (\<forall>entries ex. dotenv_file w = Inr entries \<and> secrets_exists w = Inr ex
         \<and> (if ex then secrets_chdir w else None) = None
       \<longrightarrow> bootstrap_secrets w =
             (if unset_or_empty ((entries ++ environ w) ''OPENAI_API_KEY'')
              then Inl (RuntimeError ''Missing OPENAI_API_KEY (set it in .env or container env).'')
              else if unset_or_empty ((entries ++ environ w) ''TAVILY_API_KEY'')
              then Inl (RuntimeError ''Missing TAVILY_API_KEY (set it in .env or container env).'')
              else Inr (w\<lparr>environ := entries ++ environ w,
                           cwd := (if ex then ''/app/secrets'' else cwd w)\<rparr>)))
   \<and> (\<forall>e. bootstrap_secrets w = Inl e \<longrightarrow>
         dotenv_file w = Inl e \<or> secrets_exists w = Inl e \<or> secrets_chdir w = Some e
         \<or> (\<exists>entries. dotenv_file w = Inr entries
              \<and> (e = RuntimeError ''Missing OPENAI_API_KEY (set it in .env or container env).''
                   \<and> unset_or_empty ((entries ++ environ w) ''OPENAI_API_KEY'')
                 \<or> e = RuntimeError ''Missing TAVILY_API_KEY (set it in .env or container env).''
                   \<and> unset_or_empty ((entries ++ environ w) ''TAVILY_API_KEY''))))"
proof (intro conjI allI impI)
  fix entries
  assume "dotenv_file w = Inr entries
       \<and> (unset_or_empty ((entries ++ environ w) ''OPENAI_API_KEY'')
          \<or> unset_or_empty ((entries ++ environ w) ''TAVILY_API_KEY''))"
  then show "isl (bootstrap_secrets w)"
    by (auto simp: bootstrap_secrets_cases split: sum.splits option.splits)
next
  fix e bct exec t
  assume "bootstrap_secrets w = Inl e"
  then show "main_turn w bct exec t = Inl e"
    by (rule main_turn_bootstrap_error)
next
  fix entries ex
  assume "dotenv_file w = Inr entries \<and> secrets_exists w = Inr ex
         \<and> (if ex then secrets_chdir w else None) = None"
  then show "bootstrap_secrets w =
             (if unset_or_empty ((entries ++ environ w) ''OPENAI_API_KEY'')
              then Inl (RuntimeError ''Missing OPENAI_API_KEY (set it in .env or container env).'')
              else if unset_or_empty ((entries ++ environ w) ''TAVILY_API_KEY'')
              then Inl (RuntimeError ''Missing TAVILY_API_KEY (set it in .env or container env).'')
              else Inr (w\<lparr>environ := entries ++ environ w,
                           cwd := (if ex then ''/app/secrets'' else cwd w)\<rparr>))"
    by (simp add: bootstrap_secrets_cases)
next
  fix e
  assume "bootstrap_secrets w = Inl e"
  then show "dotenv_file w = Inl e \<or> secrets_exists w = Inl e \<or> secrets_chdir w = Some e
         \<or> (\<exists>entries. dotenv_file w = Inr entries
              \<and> (e = RuntimeError ''Missing OPENAI_API_KEY (set it in .env or container env).''
                   \<and> unset_or_empty ((entries ++ environ w) ''OPENAI_API_KEY'')
                 \<or> e = RuntimeError ''Missing TAVILY_API_KEY (set it in .env or container env).''
                   \<and> unset_or_empty ((entries ++ environ w) ''TAVILY_API_KEY'')))"
    by (auto simp: bootstrap_secrets_cases split: sum.splits option.splits if_splits)
qed

theorem bootstrap_secrets_raises_iff_witness:
  "main_turn
     \<lparr>environ = [''OPENAI_API_KEY'' \<mapsto> ''sk-1''], dotenv_file = Inr Map.empty,
      secrets_exists = Inr True, secrets_chdir = None, cwd = ''/app''\<rparr>
     (Inr []) (\<lambda>r st. Inr st) ''hi''
     = Inl (RuntimeError ''Missing TAVILY_API_KEY (set it in .env or container env).'')
   \<and> bootstrap_secrets
        \<lparr>environ = [''OPENAI_API_KEY'' \<mapsto> ''sk-1''],
         dotenv_file = Inr [''TAVILY_API_KEY'' \<mapsto> ''tvly-1''],
         secrets_exists = Inr True, secrets_chdir = None, cwd = ''/app''\<rparr>
       = Inr \<lparr>environ = [''TAVILY_API_KEY'' \<mapsto> ''tvly-1''] ++ [''OPENAI_API_KEY'' \<mapsto> ''sk-1''],
              dotenv_file = Inr [''TAVILY_API_KEY'' \<mapsto> ''tvly-1''],
              secrets_exists = Inr True, secrets_chdir = None, cwd = ''/app/secrets''\<rparr>
   \<and> bootstrap_secrets
        \<lparr>environ = [''OPENAI_API_KEY'' \<mapsto> ''sk-1'', ''TAVILY_API_KEY'' \<mapsto> ''tvly-1''],
         dotenv_file = Inl UnicodeDecodeError,
         secrets_exists = Inr False, secrets_chdir = None, cwd = ''/app''\<rparr>
       = Inl UnicodeDecodeError"
proof -
  let ?w1 = "\<lparr>environ = [''OPENAI_API_KEY'' \<mapsto> ''sk-1''], dotenv_file = Inr Map.empty,
      secrets_exists = Inr True, secrets_chdir = None, cwd = ''/app''\<rparr>"
  let ?w2 = "\<lparr>environ = [''OPENAI_API_KEY'' \<mapsto> ''sk-1''],
         dotenv_file = Inr [''TAVILY_API_KEY'' \<mapsto> ''tvly-1''],
         secrets_exists = Inr True, secrets_chdir = None, cwd = ''/app''\<rparr>"
  let ?w3 = "\<lparr>environ = [''OPENAI_API_KEY'' \<mapsto> ''sk-1'', ''TAVILY_API_KEY'' \<mapsto> ''tvly-1''],
         dotenv_file = Inl UnicodeDecodeError,
         secrets_exists = Inr False, secrets_chdir = None, cwd = ''/app''\<rparr>"
  note iff1 = bootstrap_secrets_raises_iff [of ?w1]
  have b1: "bootstrap_secrets ?w1
      = Inl (RuntimeError ''Missing TAVILY_API_KEY (set it in .env or container env).'')"
    using iff1 [THEN conjunct2, THEN conjunct2, THEN conjunct1, rule_format, of Map.empty True]
    by (simp add: unset_or_empty_def)
  have a: "main_turn ?w1 (Inr []) (\<lambda>r st. Inr st) ''hi''
      = Inl (RuntimeError ''Missing TAVILY_API_KEY (set it in .env or container env).'')"
    using iff1 [THEN conjunct2, THEN conjunct1, rule_format, OF b1] .
  have b: "bootstrap_secrets ?w2
      = Inr (?w2\<lparr>environ := [''TAVILY_API_KEY'' \<mapsto> ''tvly-1''] ++ [''OPENAI_API_KEY'' \<mapsto> ''sk-1''],
                 cwd := ''/app/secrets''\<rparr>)"
    using bootstrap_secrets_raises_iff [of ?w2, THEN conjunct2, THEN conjunct2, THEN conjunct1,
        rule_format, of "[''TAVILY_API_KEY'' \<mapsto> ''tvly-1'']" True]
    by (simp add: unset_or_empty_def map_add_def)
  have "isl (bootstrap_secrets ?w3)"
    by (simp add: bootstrap_secrets_def load_dotenv_def)
  then obtain e where e: "bootstrap_secrets ?w3 = Inl e"
    by (cases "bootstrap_secrets ?w3") auto
  with bootstrap_secrets_raises_iff [of ?w3, THEN conjunct2, THEN conjunct2, THEN conjunct2,
      rule_format, of e]
  have "e = UnicodeDecodeError"
    by simp
  with e have c: "bootstrap_secrets ?w3 = Inl UnicodeDecodeError"
    by simp
  from a b c show ?thesis
    by simp
qed

end
